theory Spec2Isabelle
  imports Complex_Main
begin

section \<open>Numeric conventions\<close>

text \<open>
  The training script and the serving application compute on 32-bit floating-point
  tensors. This development idealises those values as real numbers: rounding, overflow
  and the non-finite values of the floating-point format are not represented. A tensor
  of rank one is a list of reals, a tensor of rank two is a list of rows.
\<close>

type_synonym vec = "real list"
type_synonym matrix = "real list list"

section \<open>Configuration (train\_pinn\_model.py, section 1)\<close>

definition FEATURES :: "string list" where
  "FEATURES = [''Temperature'', ''RH'', ''Ws'', ''Rain'', ''FFMC'', ''DMC'', ''DC'', ''ISI'']"

definition TARGET :: string where
  "TARGET = ''FWI''"

definition PHYSICS_FEATURES_INDICES :: "string \<rightharpoonup> nat" where
  "PHYSICS_FEATURES_INDICES =
     map_of [(''Temperature'', 0), (''RH'', 1), (''Ws'', 2), (''Rain'', 3)]"

definition N_EPOCHS :: nat where
  "N_EPOCHS = 100"

definition BATCH_SIZE :: nat where
  "BATCH_SIZE = 32"

definition PHYSICS_LOSS_WEIGHT :: real where
  "PHYSICS_LOSS_WEIGHT = 1 / 10"

section \<open>Tensor operations used by the script\<close>

text \<open>\<open>t[:, k]\<close>: column \<open>k\<close> of a rank-two tensor.\<close>

definition column :: "matrix \<Rightarrow> nat \<Rightarrow> vec" where
  "column t k = map (\<lambda>row. row ! k) t"

text \<open>
  \<open>tf.reduce_mean\<close> of a rank-one tensor. On an empty tensor TensorFlow yields a
  non-finite value, which the reals do not have; every statement about
  \<open>reduce_mean\<close> below is about a non-empty tensor.
\<close>

definition reduce_mean :: "vec \<Rightarrow> real" where
  "reduce_mean v = sum_list v / real (length v)"

text \<open>\<open>tf.maximum(0., v)\<close>, element by element.\<close>

definition maximum0 :: "vec \<Rightarrow> vec" where
  "maximum0 v = map (max 0) v"

definition negate :: "vec \<Rightarrow> vec" where
  "negate v = map uminus v"

section \<open>Exceptions\<close>

text \<open>
  The Python exceptions that the modelled code can raise or catch. The last two are
  the failure kinds that the specification names for the training pipeline; no line of
  the two source files raises or mentions them.
\<close>

datatype py_exception =
    ValueError | TypeError | AttributeError | IndexError | OverflowError
  | FileNotFoundError | ImportError | OtherException
  | DegenerateFeatureError | NumericInstabilityError

section \<open>The feature scaler (scikit-learn's StandardScaler, as the script uses it)\<close>

text \<open>
  The script creates \<open>StandardScaler()\<close> with its defaults and calls \<open>fit_transform\<close> and
  \<open>transform\<close>. The class belongs to scikit-learn; the definitions below follow its
  documented behaviour: the per-column mean, the per-column population standard
  deviation, a scale of 1 in place of a standard deviation of 0, and a \<open>ValueError\<close>
  for an input without samples or whose width differs from the fitted one.
\<close>

text \<open>
  The attributes \<open>mean_\<close> and \<open>scale_\<close> of a fitted scaler are the fields
  \<open>mean_stats\<close> and \<open>scale_stats\<close>.
\<close>

record StandardScaler =
  mean_stats :: vec
  scale_stats :: vec

definition mean :: "vec \<Rightarrow> real" where
  "mean v = sum_list v / real (length v)"

definition var :: "vec \<Rightarrow> real" where
  "var v = mean (map (\<lambda>x. (x - mean v)\<^sup>2) v)"

definition handle_zeros_in_scale :: "real \<Rightarrow> real" where
  "handle_zeros_in_scale s = (if s = 0 then 1 else s)"

definition n_features :: "matrix \<Rightarrow> nat" where
  "n_features X = (case X of [] \<Rightarrow> 0 | row # _ \<Rightarrow> length row)"

definition check_array :: "matrix \<Rightarrow> bool" where
  "check_array X = (X \<noteq> [] \<and> 0 < n_features X \<and> list_all (\<lambda>row. length row = n_features X) X)"

definition columns :: "matrix \<Rightarrow> vec list" where
  "columns X = map (column X) [0..<n_features X]"

definition fit :: "matrix \<Rightarrow> py_exception + StandardScaler" where
  "fit X =
     (if \<not> check_array X then Inl ValueError
      else Inr \<lparr>mean_stats = map mean (columns X),
                scale_stats = map (\<lambda>c. handle_zeros_in_scale (sqrt (var c))) (columns X)\<rparr>)"

definition standardize_row :: "StandardScaler \<Rightarrow> vec \<Rightarrow> vec" where
  "standardize_row sc row =
     map (\<lambda>j. (row ! j - mean_stats sc ! j) / scale_stats sc ! j) [0..<length row]"

definition transform :: "StandardScaler \<Rightarrow> matrix \<Rightarrow> py_exception + matrix" where
  "transform sc X =
     (if \<not> check_array X \<or> n_features X \<noteq> length (mean_stats sc) then Inl ValueError
      else Inr (map (standardize_row sc) X))"

definition fit_transform :: "matrix \<Rightarrow> py_exception + StandardScaler \<times> matrix" where
  "fit_transform X =
     (case fit X of
        Inl e \<Rightarrow> Inl e
      | Inr sc \<Rightarrow> (case transform sc X of Inl e \<Rightarrow> Inl e | Inr Xs \<Rightarrow> Inr (sc, Xs)))"

section \<open>Split and scale (train\_pinn\_model.py, section 3)\<close>

text \<open>
  \<open>train_test_split(X, y, test_size=0.2, random_state=42)\<close> is scikit-learn's; with
  its seed fixed it is a function of \<open>X\<close> and \<open>y\<close>, the parameter \<open>train_test_split\<close>. The
  result holds the scaler and the four arrays that the rest of the script uses.
\<close>

record prepared =
  fitted_scaler :: StandardScaler
  X_train_scaled :: matrix
  X_test_scaled :: matrix
  y_train :: matrix
  y_test :: matrix

definition split_and_scale ::
  "(matrix \<Rightarrow> matrix \<Rightarrow> matrix \<times> matrix \<times> matrix \<times> matrix) \<Rightarrow> matrix \<Rightarrow> matrix
     \<Rightarrow> py_exception + prepared" where
  "split_and_scale train_test_split X y =
     (case train_test_split X y of (X_train, X_test, y_tr, y_te) \<Rightarrow>
        (case fit_transform X_train of
           Inl e \<Rightarrow> Inl e
         | Inr (sc, X_tr_scaled) \<Rightarrow>
             (case transform sc X_test of
                Inl e \<Rightarrow> Inl e
              | Inr X_te_scaled \<Rightarrow>
                  Inr \<lparr>fitted_scaler = sc, X_train_scaled = X_tr_scaled,
                       X_test_scaled = X_te_scaled, y_train = y_tr, y_test = y_te\<rparr>)))"

section \<open>The network (train\_pinn\_model.py, section 4)\<close>

text \<open>
  A Keras \<open>Sequential\<close> model of \<open>Dense\<close> layers. A layer holds its kernel, one row
  per input and one column per unit, its bias, one entry per unit, and its activation.
  Calling a layer on an input \<open>x\<close> gives, for every unit \<open>j\<close>, the activation of
  \<open>\<Sum>i. x[i] * kernel[i][j] + bias[j]\<close>.
\<close>

datatype activation_fn = Relu | Linear

fun activate :: "activation_fn \<Rightarrow> real \<Rightarrow> real" where
  "activate Relu z = max 0 z"
| "activate Linear z = z"

record Dense =
  kernel :: matrix
  bias :: vec
  activation :: activation_fn

type_synonym Sequential = "Dense list"

definition units :: "Dense \<Rightarrow> nat" where
  "units l = length (bias l)"

definition dot :: "vec \<Rightarrow> vec \<Rightarrow> real" where
  "dot x w = (\<Sum>i\<leftarrow>[0..<length x]. x ! i * w ! i)"

definition dense_call :: "Dense \<Rightarrow> vec \<Rightarrow> vec" where
  "dense_call l x =
     map (\<lambda>j. activate (activation l) (dot x (column (kernel l) j) + bias l ! j)) [0..<units l]"

definition forward :: "Sequential \<Rightarrow> vec \<Rightarrow> vec" where
  "forward m x = foldl (\<lambda>h l. dense_call l h) x m"

text \<open>\<open>model(x_batch, training=True)\<close>: the layers have no training-only behaviour.\<close>

definition model_call :: "Sequential \<Rightarrow> matrix \<Rightarrow> matrix" where
  "model_call m x_batch = map (forward m) x_batch"

text \<open>
  The layers of a model fit together: a layer for \<open>n\<close> inputs has \<open>n\<close> kernel rows, as
  many entries in each as it has units, and at least one unit; the next layer takes
  that many inputs.
\<close>

fun built :: "nat \<Rightarrow> Sequential \<Rightarrow> bool" where
  "built n [] = True"
| "built n (l # ls) =
     (length (kernel l) = n \<and> list_all (\<lambda>row. length row = units l) (kernel l)
      \<and> 0 < units l \<and> built (units l) ls)"

text \<open>
  The value of \<open>model\<close> as the script builds it: 8 inputs, 128 and 64 rectified units, one linear
  output. The initial kernels are drawn by the framework's initializer, a parameter
  that maps the two dimensions of a kernel to its initial value; biases start at zero.
\<close>

definition initial_model :: "(nat \<Rightarrow> nat \<Rightarrow> matrix) \<Rightarrow> Sequential" where
  "initial_model initializer =
     [\<lparr>kernel = initializer (length FEATURES) 128, bias = replicate 128 0, activation = Relu\<rparr>,
      \<lparr>kernel = initializer 128 64, bias = replicate 64 0, activation = Relu\<rparr>,
      \<lparr>kernel = initializer 64 1, bias = replicate 1 0, activation = Linear\<rparr>]"

text \<open>
  \<open>model.predict(X)\<close> on a loaded model: Keras rejects an input whose width is not the
  model's input width.
\<close>

definition model_predict :: "Sequential \<Rightarrow> matrix \<Rightarrow> py_exception + matrix" where
  "model_predict m X =
     (case m of
        [] \<Rightarrow> Inl ValueError
      | l # _ \<Rightarrow>
          if list_all (\<lambda>row. length row = length (kernel l)) X then Inr (model_call m X)
          else Inl ValueError)"

section \<open>The physics loss (train\_pinn\_model.py, section 5)\<close>

text \<open>
  \<open>physics_loss_fn(model, x_batch)\<close>. The gradient of the network output with respect
  to the input batch comes from the framework's gradient tape; it is the parameter
  \<open>tape_gradient\<close>, which returns \<open>None\<close> where the tape returns \<open>None\<close>.
\<close>

definition physics_loss_fn :: "('m \<Rightarrow> matrix \<Rightarrow> matrix option) \<Rightarrow> 'm \<Rightarrow> matrix \<Rightarrow> real" where
  "physics_loss_fn tape_gradient model x_batch =
     (case tape_gradient model x_batch of
        None \<Rightarrow> 0
      | Some gradients \<Rightarrow>
          (let grad_temp = column gradients (the (PHYSICS_FEATURES_INDICES ''Temperature''));
               grad_rh = column gradients (the (PHYSICS_FEATURES_INDICES ''RH''));
               grad_ws = column gradients (the (PHYSICS_FEATURES_INDICES ''Ws''));
               grad_rain = column gradients (the (PHYSICS_FEATURES_INDICES ''Rain''));
               loss_temp = reduce_mean (maximum0 (negate grad_temp));
               loss_rh = reduce_mean (maximum0 grad_rh);
               loss_ws = reduce_mean (maximum0 (negate grad_ws));
               loss_rain = reduce_mean (maximum0 grad_rain)
           in loss_temp + loss_rh + loss_ws + loss_rain))"

subsection \<open>The penalty as the specification words it\<close>

text \<open>
  The position of a named feature in the feature order, the per-sample violation for a
  feature with its expected sign, and the penalty as the sum over the four designated
  features of the batch mean of the violations.
\<close>

fun position :: "string list \<Rightarrow> string \<Rightarrow> nat" where
  "position [] f = 0"
| "position (g # gs) f = (if g = f then 0 else Suc (position gs f))"

definition violation :: "string \<Rightarrow> real \<Rightarrow> real" where
  "violation f g = (if f = ''Temperature'' \<or> f = ''Ws'' then max 0 (- g) else max 0 g)"

definition batch_mean :: "(real list \<Rightarrow> real) \<Rightarrow> matrix \<Rightarrow> real" where
  "batch_mean per_sample batch = (\<Sum>row\<leftarrow>batch. per_sample row) / real (length batch)"

definition penalty_spec :: "matrix \<Rightarrow> real" where
  "penalty_spec gradients =
     (\<Sum>f\<leftarrow>[''Temperature'', ''RH'', ''Ws'', ''Rain''].
        batch_mean (\<lambda>row. violation f (row ! position FEATURES f)) gradients)"

text \<open>A batch of input gradients has at least one sample and eight columns.\<close>

definition gradient_batch :: "matrix \<Rightarrow> bool" where
  "gradient_batch g = (g \<noteq> [] \<and> list_all (\<lambda>row. length row = length FEATURES) g)"

text \<open>No sample violates a monotonicity constraint.\<close>

definition monotone_batch :: "matrix \<Rightarrow> bool" where
  "monotone_batch g =
     list_all (\<lambda>row. 0 \<le> row ! 0 \<and> row ! 1 \<le> 0 \<and> 0 \<le> row ! 2 \<and> row ! 3 \<le> 0) g"

section \<open>The data loss, the framework and the training step (sections 5 and 6)\<close>

text \<open>
  \<open>tf.keras.losses.MeanSquaredError()\<close>: the squared difference, averaged over the
  outputs of a sample and then over the samples of the batch.
\<close>

definition mse_loss_fn :: "matrix \<Rightarrow> matrix \<Rightarrow> real" where
  "mse_loss_fn y_true y_pred =
     reduce_mean (map2 (\<lambda>t p. reduce_mean (map2 (\<lambda>a b. (b - a)\<^sup>2) t p)) y_true y_pred)"

text \<open>
  What the script takes from TensorFlow, as parameters: the gradient of the network
  output with respect to an input batch (the tape of \<open>physics_loss_fn\<close>), the gradient
  with respect to the model's variables of a scalar recorded on a tape, given as a
  function of those variables, and the optimizer's update, which changes the
  optimizer's own state and the model's variables. The types of a gradient and of the
  optimizer's state are left open.
\<close>

record ('g, 'o) framework =
  input_gradient :: "Sequential \<Rightarrow> matrix \<Rightarrow> matrix option"
  variable_gradient :: "(Sequential \<Rightarrow> real) \<Rightarrow> Sequential \<Rightarrow> 'g"
  apply_gradients :: "'g \<Rightarrow> 'o \<times> Sequential \<Rightarrow> 'o \<times> Sequential"

text \<open>
  The block under \<open>with tf.GradientTape() as tape\<close> in \<open>train_step\<close>, as a function of
  the model's variables: the data loss, the physics loss and the total loss.
\<close>

definition taped_losses ::
  "('g, 'o) framework \<Rightarrow> matrix \<Rightarrow> matrix \<Rightarrow> Sequential \<Rightarrow> real \<times> real \<times> real" where
  "taped_losses fw x_batch y_batch m =
     (let y_pred = model_call m x_batch;
          data_loss = mse_loss_fn y_batch y_pred;
          physics_loss = physics_loss_fn (input_gradient fw) m x_batch;
          total_loss = data_loss + PHYSICS_LOSS_WEIGHT * physics_loss
      in (data_loss, physics_loss, total_loss))"

text \<open>\<open>tape.gradient(total_loss, model.trainable_variables)\<close> in \<open>train_step\<close>.\<close>

definition step_gradients ::
  "('g, 'o) framework \<Rightarrow> 'o \<times> Sequential \<Rightarrow> matrix \<times> matrix \<Rightarrow> 'g" where
  "step_gradients fw st b =
     variable_gradient fw (\<lambda>m. snd (snd (taped_losses fw (fst b) (snd b) m))) (snd st)"

text \<open>
  \<open>train_step(x_batch, y_batch)\<close>. The state is the optimizer's state and the model;
  the result is the three losses and the state after the optimizer's update.
\<close>

definition train_step ::
  "('g, 'o) framework \<Rightarrow> 'o \<times> Sequential \<Rightarrow> matrix \<times> matrix
     \<Rightarrow> (real \<times> real \<times> real) \<times> ('o \<times> Sequential)" where
  "train_step fw st b =
     (let (data_loss, physics_loss, total_loss) = taped_losses fw (fst b) (snd b) (snd st);
          gradients = step_gradients fw st b
      in ((data_loss, physics_loss, total_loss), apply_gradients fw gradients st))"

section \<open>The training loop (section 7)\<close>

text \<open>
  The two nested loops, for any step function: \<open>train_dataset epoch\<close> is the sequence
  of batches that iterating the dataset yields in that epoch. The result is the losses
  of every step, epoch by epoch, and the state after the last step. The running means
  of the losses only feed the progress line printed every tenth epoch.
\<close>

fun run_batches :: "('s \<Rightarrow> 'b \<Rightarrow> 'l \<times> 's) \<Rightarrow> 's \<Rightarrow> 'b list \<Rightarrow> 'l list \<times> 's" where
  "run_batches step st [] = ([], st)"
| "run_batches step st (b # bs) =
     (case step st b of (losses, st') \<Rightarrow>
        (case run_batches step st' bs of (rest, st'') \<Rightarrow> (losses # rest, st'')))"

fun run_epochs ::
  "('s \<Rightarrow> 'b \<Rightarrow> 'l \<times> 's) \<Rightarrow> (nat \<Rightarrow> 'b list) \<Rightarrow> 's \<Rightarrow> nat list \<Rightarrow> 'l list list \<times> 's" where
  "run_epochs step train_dataset st [] = ([], st)"
| "run_epochs step train_dataset st (epoch # epochs) =
     (case run_batches step st (train_dataset epoch) of (losses, st') \<Rightarrow>
        (case run_epochs step train_dataset st' epochs of (rest, st'') \<Rightarrow> (losses # rest, st'')))"

definition training_loop ::
  "('s \<Rightarrow> 'b \<Rightarrow> 'l \<times> 's) \<Rightarrow> (nat \<Rightarrow> 'b list) \<Rightarrow> 's \<Rightarrow> 'l list list \<times> 's" where
  "training_loop step train_dataset st = run_epochs step train_dataset st [0..<N_EPOCHS]"

text \<open>The epochs after which the progress line is printed, and its three means.\<close>

definition printed_epochs :: "nat list" where
  "printed_epochs = filter (\<lambda>epoch. (epoch + 1) mod 10 = 0 \<or> epoch = N_EPOCHS - 1) [0..<N_EPOCHS]"

definition progress_line :: "(real \<times> real \<times> real) list \<Rightarrow> real \<times> real \<times> real" where
  "progress_line losses =
     (mean (map fst losses), mean (map (fst \<circ> snd) losses), mean (map (snd \<circ> snd) losses))"

subsection \<open>The dataset (line 82)\<close>

text \<open>
  \<open>from_tensor_slices((X_train_scaled, y_train)).shuffle(len(X_train)).batch(BATCH_SIZE)\<close>:
  every iteration over the dataset draws a new order of the samples and cuts it into
  batches of \<open>BATCH_SIZE\<close>, the last one possibly shorter. The script passes no seed;
  the order drawn in each epoch is the parameter \<open>shuffle\<close>.
\<close>

function batch :: "nat \<Rightarrow> 'a list \<Rightarrow> 'a list list" where
  "batch n xs = (if n = 0 \<or> xs = [] then [] else take n xs # batch n (drop n xs))"
  by pat_completeness auto
termination
  by (relation "measure (\<lambda>(n, xs). length xs)") auto

definition train_dataset ::
  "(nat \<Rightarrow> (vec \<times> vec) list \<Rightarrow> (vec \<times> vec) list) \<Rightarrow> prepared \<Rightarrow> nat \<Rightarrow> (matrix \<times> matrix) list" where
  "train_dataset shuffle p epoch =
     map (\<lambda>b. (map fst b, map snd b))
       (batch BATCH_SIZE (shuffle epoch (zip (X_train_scaled p) (y_train p))))"

text \<open>
  The training of the script: the loop on the model as built, with the step above. The
  optimizer's initial state and the initial kernels are the framework's.
\<close>

definition train ::
  "('g, 'o) framework \<Rightarrow> (nat \<Rightarrow> (vec \<times> vec) list \<Rightarrow> (vec \<times> vec) list) \<Rightarrow> 'o
     \<Rightarrow> (nat \<Rightarrow> nat \<Rightarrow> matrix) \<Rightarrow> prepared
     \<Rightarrow> (real \<times> real \<times> real) list list \<times> ('o \<times> Sequential)" where
  "train fw shuffle optimizer initializer p =
     training_loop (train_step fw) (train_dataset shuffle p) (optimizer, initial_model initializer)"

subsection \<open>The script from the split to the saved artifacts\<close>

text \<open>
  Sections 3 to 9 of the script on a cleaned feature matrix and target column: split
  and scale, build the model, train, and save the scaler and the trained model, which
  are the result. The test loss of section 8 is printed and changes nothing.
\<close>

definition training_script ::
  "(matrix \<Rightarrow> matrix \<Rightarrow> matrix \<times> matrix \<times> matrix \<times> matrix) \<Rightarrow> ('g, 'o) framework
     \<Rightarrow> (nat \<Rightarrow> (vec \<times> vec) list \<Rightarrow> (vec \<times> vec) list) \<Rightarrow> 'o \<Rightarrow> (nat \<Rightarrow> nat \<Rightarrow> matrix)
     \<Rightarrow> matrix \<Rightarrow> matrix \<Rightarrow> py_exception + StandardScaler \<times> Sequential" where
  "training_script train_test_split fw shuffle optimizer initializer X y =
     (case split_and_scale train_test_split X y of
        Inl e \<Rightarrow> Inl e
      | Inr p \<Rightarrow> Inr (fitted_scaler p, snd (snd (train fw shuffle optimizer initializer p))))"

subsection \<open>Notions used to state the properties of the training\<close>

text \<open>
  All the batches of a training, in the order of the steps, and the losses that the
  successive steps return.
\<close>

definition all_batches :: "(nat \<Rightarrow> 'b list) \<Rightarrow> 'b list" where
  "all_batches ds = concat (map ds [0..<N_EPOCHS])"

fun losses_along :: "('s \<Rightarrow> 'b \<Rightarrow> 'l \<times> 's) \<Rightarrow> 's \<Rightarrow> 'b list \<Rightarrow> 'l list" where
  "losses_along step st [] = []"
| "losses_along step st (b # bs) = fst (step st b) # losses_along step (snd (step st b)) bs"

section \<open>The serving application (app.py)\<close>

subsection \<open>Loading the artifacts at start (lines 25 to 45)\<close>

text \<open>
  The two module-level variables. The outcome of \<open>pickle.load\<close> on the scaler file and
  of \<open>load_model\<close> on the model file are inputs: either the loaded object or the
  exception raised. Every handler of the \<open>try\<close> statement sets both variables to
  \<open>None\<close>; the second load is not attempted when the first one raises.
\<close>

record app_globals =
  scaler :: "StandardScaler option"
  pinn_model :: "Sequential option"

definition load_models ::
  "(py_exception + StandardScaler) \<Rightarrow> (py_exception + Sequential) \<Rightarrow> app_globals" where
  "load_models scaler_load model_load =
     (case scaler_load of
        Inl e \<Rightarrow> \<lparr>scaler = None, pinn_model = None\<rparr>
      | Inr sc \<Rightarrow>
          (case model_load of
             Inl e \<Rightarrow> \<lparr>scaler = None, pinn_model = None\<rparr>
           | Inr m \<Rightarrow> \<lparr>scaler = Some sc, pinn_model = Some m\<rparr>))"

subsection \<open>The request body\<close>

text \<open>
  A Python float as the handler can meet it: a number, an infinity of either sign, or
  not-a-number. Only the handler's inputs need the last two; the arithmetic of the
  scaler and of the network stays on the reals.
\<close>

datatype pyfloat = Finite real | Infinity | NaN

text \<open>
  A value of a field of the request body, as Python's JSON parser delivers it: an
  integer of any size, a float (the parser reads \<open>1e999\<close> as an infinity and accepts
  \<open>NaN\<close>), a string, a boolean, \<open>null\<close>, or an array or object. The parsed body itself
  is a JSON object, a value that Python takes as false (\<open>null\<close>, \<open>false\<close>, \<open>0\<close>, an empty
  string or array), for which \<open>request.json or {}\<close> is the empty dictionary, or another
  value, which has no \<open>get\<close> method. A body that Flask cannot parse is answered by
  Flask when line 179 reads \<open>request.json\<close> and never reaches the lines below it.
\<close>

datatype json = JNull | JBool bool | JInt int | JFloat pyfloat | JStr string | JArray | JObject

datatype request_json = JsonDict "string \<rightharpoonup> json" | JsonFalsy | JsonTruthy

text \<open>
  \<open>float(v)\<close>. An integer converts when it rounds to a double, that is when its
  absolute value is below \<open>2^1024 - 2^970\<close>, half way between the largest double and
  \<open>2^1024\<close>; a larger one raises \<open>OverflowError\<close>. The conversion of a string is
  Python's; it is the parameter \<open>float_str\<close>, with \<open>None\<close> where \<open>float\<close> raises
  \<open>ValueError\<close>.
\<close>

definition FLOAT_OVERFLOW :: int where
  "FLOAT_OVERFLOW = 2 ^ 1024 - 2 ^ 970"

definition py_float :: "(string \<Rightarrow> pyfloat option) \<Rightarrow> json \<Rightarrow> py_exception + pyfloat" where
  "py_float float_str v =
     (case v of
        JInt i \<Rightarrow> if \<bar>i\<bar> < FLOAT_OVERFLOW then Inr (Finite (of_int i)) else Inl OverflowError
      | JFloat f \<Rightarrow> Inr f
      | JBool b \<Rightarrow> Inr (Finite (if b then 1 else 0))
      | JStr s \<Rightarrow> (case float_str s of None \<Rightarrow> Inl ValueError | Some f \<Rightarrow> Inr f)
      | JNull \<Rightarrow> Inl TypeError
      | JArray \<Rightarrow> Inl TypeError
      | JObject \<Rightarrow> Inl TypeError)"

text \<open>\<open>data.get(k, 0)\<close>.\<close>

definition dict_get :: "(string \<rightharpoonup> json) \<Rightarrow> string \<Rightarrow> json" where
  "dict_get data k = (case data k of None \<Rightarrow> JInt 0 | Some v \<Rightarrow> v)"

definition REQUEST_KEYS :: "string list" where
  "REQUEST_KEYS =
     [''temperature'', ''humidity'', ''wind_speed'', ''rain'', ''ffmc'', ''dmc'', ''dc'', ''isi'']"

text \<open>The elements of a list display are evaluated in order; the first exception ends it.\<close>

fun sequence :: "(py_exception + 'a) list \<Rightarrow> py_exception + 'a list" where
  "sequence [] = Inr []"
| "sequence (Inl e # rs) = Inl e"
| "sequence (Inr v # rs) = (case sequence rs of Inl e \<Rightarrow> Inl e | Inr vs \<Rightarrow> Inr (v # vs))"

text \<open>\<open>round(x, 2)\<close>: to the nearest hundredth, a tie to the even one.\<close>

definition py_round2 :: "real \<Rightarrow> real" where
  "py_round2 x =
     (let y = x * 100; f = \<lfloor>y\<rfloor>; d = y - of_int f
      in of_int (if d < 1 / 2 then f else if 1 / 2 < d then f + 1
                 else if even f then f else f + 1) / 100)"

subsection \<open>The prediction handler (lines 171 to 203)\<close>

datatype response_body =
    Fwi_prediction pyfloat
  | Error_message string
  | Prediction_error py_exception
  | Unauthorized

type_synonym response = "response_body \<times> nat"

text \<open>The number in a float, 0 for the other two.\<close>

definition finite_part :: "pyfloat \<Rightarrow> real" where
  "finite_part f = (case f of Finite r \<Rightarrow> r | Infinity \<Rightarrow> 0 | NaN \<Rightarrow> 0)"

text \<open>
  The body of the \<open>try\<close> statement: the value computed, or the exception raised. The
  scaler's \<open>transform\<close> rejects an infinite feature with \<open>ValueError\<close> and lets a
  not-a-number through; that feature makes every unit of the first layer, and with it
  the output and its rounding, not-a-number, while the widths are checked as for
  numbers.
\<close>

definition predict_try ::
  "(string \<Rightarrow> pyfloat option) \<Rightarrow> StandardScaler \<Rightarrow> Sequential \<Rightarrow> request_json
     \<Rightarrow> py_exception + pyfloat" where
  "predict_try float_str sc m request_json =
     (case request_json of
        JsonTruthy \<Rightarrow> Inl AttributeError
      | _ \<Rightarrow>
        (let data = (case request_json of JsonDict d \<Rightarrow> d | _ \<Rightarrow> Map.empty) in
         case sequence (map (\<lambda>k. py_float float_str (dict_get data k)) REQUEST_KEYS) of
           Inl e \<Rightarrow> Inl e
         | Inr features \<Rightarrow>
             if Infinity \<in> set features then Inl ValueError
             else
               (case transform sc [map finite_part features] of
                  Inl e \<Rightarrow> Inl e
                | Inr scaled_features \<Rightarrow>
                    (case model_predict m scaled_features of
                       Inl e \<Rightarrow> Inl e
                     | Inr prediction \<Rightarrow>
                         (case prediction of
                            (v # _) # _ \<Rightarrow>
                              Inr (if NaN \<in> set features then NaN else Finite (py_round2 v))
                          | _ \<Rightarrow> Inl IndexError)))))"

definition predict ::
  "(string \<Rightarrow> pyfloat option) \<Rightarrow> app_globals \<Rightarrow> request_json \<Rightarrow> response" where
  "predict float_str g request_json =
     (case (pinn_model g, scaler g) of
        (Some m, Some sc) \<Rightarrow>
          (case predict_try float_str sc m request_json of
             Inr fwi_value \<Rightarrow> (Fwi_prediction fwi_value, 200)
           | Inl e \<Rightarrow> (Prediction_error e, 400))
      | _ \<Rightarrow> (Error_message ''Prediction models are not available on the server.'', 503))"

text \<open>
  The route: \<open>login_required\<close> (Flask-Login) answers a request without a logged-in user
  with status 401 and does not call the handler.
\<close>

definition api_predict ::
  "(string \<Rightarrow> pyfloat option) \<Rightarrow> app_globals \<Rightarrow> bool \<Rightarrow> request_json \<Rightarrow> response" where
  "api_predict float_str g is_authenticated request_json =
     (if is_authenticated then predict float_str g request_json else (Unauthorized, 401))"

subsection \<open>Notions used to state the properties of the handler\<close>

text \<open>
  Every one of the eight fields of a request gives a number: it is absent, or \<open>float\<close>
  accepts its value and the result is finite. Then \<open>request_features\<close> is the feature
  vector that the handler builds.
\<close>

definition gives_number :: "(string \<Rightarrow> pyfloat option) \<Rightarrow> json \<Rightarrow> bool" where
  "gives_number float_str v =
     (case py_float float_str v of Inr (Finite r) \<Rightarrow> True | _ \<Rightarrow> False)"

definition fields_convert :: "(string \<Rightarrow> pyfloat option) \<Rightarrow> (string \<rightharpoonup> json) \<Rightarrow> bool" where
  "fields_convert float_str data =
     list_all (\<lambda>k. case data k of None \<Rightarrow> True | Some v \<Rightarrow> gives_number float_str v)
       REQUEST_KEYS"

definition request_features :: "(string \<Rightarrow> pyfloat option) \<Rightarrow> (string \<rightharpoonup> json) \<Rightarrow> vec" where
  "request_features float_str data =
     map (\<lambda>k. case data k of
                 None \<Rightarrow> 0
               | Some v \<Rightarrow> (case py_float float_str v of Inr f \<Rightarrow> finite_part f | Inl e \<Rightarrow> 0))
       REQUEST_KEYS"

text \<open>The request with every absent field set to the number 0.\<close>

definition with_defaults :: "(string \<rightharpoonup> json) \<Rightarrow> (string \<rightharpoonup> json)" where
  "with_defaults data =
     (\<lambda>k. if k \<in> set REQUEST_KEYS \<and> data k = None then Some (JInt 0) else data k)"

text \<open>
  An artifact of the shape that the training script saves: a scaler fitted on eight
  columns and a model whose layers fit together from eight inputs on.
\<close>

definition artifact_shape :: "StandardScaler \<Rightarrow> Sequential \<Rightarrow> bool" where
  "artifact_shape sc m =
     (length (mean_stats sc) = length FEATURES \<and> length (scale_stats sc) = length FEATURES
      \<and> m \<noteq> [] \<and> built (length FEATURES) m)"

section \<open>Properties of the physics loss\<close>

lemma sum_list_maximum0_zero:
  "list_all (\<lambda>x. x \<le> 0) v \<Longrightarrow> sum_list (maximum0 v) = 0"
  by (induction v) (simp_all add: maximum0_def max_def)

lemma reduce_mean_maximum0_zero:
  "list_all (\<lambda>x. x \<le> 0) v \<Longrightarrow> reduce_mean (maximum0 v) = 0"
  by (simp add: reduce_mean_def sum_list_maximum0_zero)

lemma physics_indices:
  "the (PHYSICS_FEATURES_INDICES ''Temperature'') = 0"
  "the (PHYSICS_FEATURES_INDICES ''RH'') = 1"
  "the (PHYSICS_FEATURES_INDICES ''Ws'') = 2"
  "the (PHYSICS_FEATURES_INDICES ''Rain'') = 3"
  by (simp_all add: PHYSICS_FEATURES_INDICES_def)

lemma feature_positions:
  "position FEATURES ''Temperature'' = 0"
  "position FEATURES ''RH'' = 1"
  "position FEATURES ''Ws'' = 2"
  "position FEATURES ''Rain'' = 3"
  by (simp_all add: FEATURES_def)

lemma physics_loss_unfold:
  "tape_gradient model x_batch = Some g \<Longrightarrow>
   physics_loss_fn tape_gradient model x_batch =
     reduce_mean (maximum0 (negate (column g 0))) + reduce_mean (maximum0 (column g 1))
     + reduce_mean (maximum0 (negate (column g 2))) + reduce_mean (maximum0 (column g 3))"
  by (simp add: physics_loss_fn_def physics_indices Let_def)

lemma penalty_spec_unfold:
  "penalty_spec g =
     reduce_mean (maximum0 (negate (column g 0))) + reduce_mean (maximum0 (column g 1))
     + reduce_mean (maximum0 (negate (column g 2))) + reduce_mean (maximum0 (column g 3))"
  by (simp add: penalty_spec_def batch_mean_def feature_positions violation_def
      reduce_mean_def maximum0_def negate_def column_def comp_def)

lemma monotone_columns:
  assumes "monotone_batch g"
  shows "list_all (\<lambda>x. x \<le> 0) (negate (column g 0))"
    and "list_all (\<lambda>x. x \<le> 0) (column g 1)"
    and "list_all (\<lambda>x. x \<le> 0) (negate (column g 2))"
    and "list_all (\<lambda>x. x \<le> 0) (column g 3)"
  using assms
  by (simp_all add: monotone_batch_def negate_def column_def list_all_iff)

text \<open>
  C1. For a batch whose input gradients are \<open>g\<close>, the physics penalty is the sum over
  temperature, relative humidity, wind speed and rain of the batch mean of the
  per-sample violation (\<open>max 0 (- gradient)\<close> for temperature and wind speed,
  \<open>max 0 gradient\<close> for humidity and rain), and it is exactly 0 when every sample's
  gradient is non-negative for temperature and wind speed and non-positive for
  humidity and rain.
\<close>

theorem physics_loss_is_penalty:
  assumes "tape_gradient model x_batch = Some g" and "gradient_batch g"
  shows "physics_loss_fn tape_gradient model x_batch = penalty_spec g
       \<and> (monotone_batch g \<longrightarrow> physics_loss_fn tape_gradient model x_batch = 0)"
proof
  show eq: "physics_loss_fn tape_gradient model x_batch = penalty_spec g"
    using assms(1) by (simp only: physics_loss_unfold penalty_spec_unfold)
  show "monotone_batch g \<longrightarrow> physics_loss_fn tape_gradient model x_batch = 0"
  proof
    assume m: "monotone_batch g"
    show "physics_loss_fn tape_gradient model x_batch = 0"
      using assms(1) monotone_columns [OF m]
      by (simp add: physics_loss_unfold reduce_mean_maximum0_zero)
  qed
qed

theorem physics_loss_is_penalty_witness:
  "gradient_batch [[1, -1, 2, -3, 5, 6, 7, 8], [0, 0, 4, -1, 5, 6, 7, 8]]
   \<and> monotone_batch [[1, -1, 2, -3, 5, 6, 7, 8], [0, 0, 4, -1, 5, 6, 7, 8]]
   \<and> physics_loss_fn (\<lambda>m x. Some [[1, -1, 2, -3, 5, 6, 7, 8], [0, 0, 4, -1, 5, 6, 7, 8]])
         () [[25, 40, 10, 0, 85, 6, 15, 2], [30, 20, 5, 0, 90, 7, 20, 3]] = 0
   \<and> penalty_spec [[1, -1, 2, -3, 5, 6, 7, 8], [0, 0, 4, -1, 5, 6, 7, 8]] = 0"
proof -
  let ?g = "[[1, -1, 2, -3, 5, 6, 7, 8], [0, 0, 4, -1, 5, 6, 7, 8]] :: matrix"
  have b: "gradient_batch ?g"
    by (simp add: gradient_batch_def FEATURES_def)
  have m: "monotone_batch ?g"
    by (simp add: monotone_batch_def)
  let ?x = "[[25, 40, 10, 0, 85, 6, 15, 2], [30, 20, 5, 0, 90, 7, 20, 3]] :: matrix"
  have "physics_loss_fn (\<lambda>m x. Some ?g) () ?x = penalty_spec ?g
      \<and> (monotone_batch ?g \<longrightarrow> physics_loss_fn (\<lambda>m x. Some ?g) () ?x = 0)"
    using b by (intro physics_loss_is_penalty [of "\<lambda>m x. Some ?g" "()" ?x ?g]) simp_all
  with b m show ?thesis
    by simp
qed

section \<open>Properties of the scaler\<close>

lemma column_length: "length (column X j) = length X"
  by (simp add: column_def)

lemma mean_const:
  assumes "v \<noteq> []" and "\<forall>x\<in>set v. x = c"
  shows "mean v = c"
proof -
  have "sum_list v = real (length v) * c"
    using assms(2) by (induction v) (simp_all add: algebra_simps)
  with assms(1) show ?thesis by (simp add: mean_def)
qed

lemma var_const:
  assumes "v \<noteq> []" and "\<forall>x\<in>set v. x = c"
  shows "var v = 0"
proof -
  have m: "mean v = c" using assms by (rule mean_const)
  have "map (\<lambda>x. (x - mean v)\<^sup>2) v \<noteq> []" using assms(1) by simp
  moreover have "\<forall>x\<in>set (map (\<lambda>x. (x - mean v)\<^sup>2) v). x = 0"
    using assms(2) m by auto
  ultimately show ?thesis unfolding var_def by (rule mean_const)
qed

lemma fit_ok:
  "check_array X \<Longrightarrow>
   fit X = Inr \<lparr>mean_stats = map mean (columns X),
                scale_stats = map (\<lambda>c. handle_zeros_in_scale (sqrt (var c))) (columns X)\<rparr>"
  by (simp add: fit_def)

lemma length_columns: "length (columns X) = n_features X"
  by (simp add: columns_def)

lemma fit_transform_ok:
  assumes "check_array X"
  shows "fit_transform X =
     Inr (\<lparr>mean_stats = map mean (columns X),
            scale_stats = map (\<lambda>c. handle_zeros_in_scale (sqrt (var c))) (columns X)\<rparr>,
          map (standardize_row \<lparr>mean_stats = map mean (columns X),
            scale_stats = map (\<lambda>c. handle_zeros_in_scale (sqrt (var c))) (columns X)\<rparr>) X)"
  using assms by (simp add: fit_transform_def fit_ok transform_def length_columns)

text \<open>
  C2 (as amended). Fitting the scaler on a training matrix with a constant column does
  not fail: the column's mean is the constant, its scale is 1 in place of the zero
  standard deviation, and the column is standardized to zeros.
\<close>

theorem fit_constant_column:
  assumes "check_array X" and "j < n_features X" and "list_all (\<lambda>row. row ! j = c) X"
  shows "case fit_transform X of
           Inl e \<Rightarrow> False
         | Inr (sc, Xs) \<Rightarrow>
             mean_stats sc ! j = c \<and> scale_stats sc ! j = 1 \<and> list_all (\<lambda>row. row ! j = 0) Xs"
proof -
  let ?sc = "\<lparr>mean_stats = map mean (columns X),
            scale_stats = map (\<lambda>c. handle_zeros_in_scale (sqrt (var c))) (columns X)\<rparr>"
  have ne: "column X j \<noteq> []"
    using assms(1) by (simp add: check_array_def column_def)
  have all: "\<forall>row\<in>set X. row ! j = c"
    using assms(3) by (simp add: list_all_iff)
  have cst: "\<forall>x\<in>set (column X j). x = c"
    using all by (auto simp: column_def)
  have cj: "columns X ! j = column X j"
    using assms(2) by (simp add: columns_def)
  have m: "mean_stats ?sc ! j = c"
    using assms(2) by (simp add: length_columns cj mean_const [OF ne cst])
  have s: "scale_stats ?sc ! j = 1"
    using assms(2) by (simp add: length_columns cj var_const [OF ne cst] handle_zeros_in_scale_def)
  have z: "list_all (\<lambda>row. row ! j = 0) (map (standardize_row ?sc) X)"
  proof -
    have "standardize_row ?sc row ! j = 0" if "row \<in> set X" for row
    proof -
      have "length row = n_features X"
        using assms(1) that by (simp add: check_array_def list_all_iff)
      with assms(2) have "standardize_row ?sc row ! j = (row ! j - mean_stats ?sc ! j) / scale_stats ?sc ! j"
        by (simp add: standardize_row_def)
      with m all that show ?thesis by simp
    qed
    then show ?thesis by (simp add: list_all_iff)
  qed
  from m s z show ?thesis
    by (simp add: fit_transform_ok [OF assms(1)])
qed

theorem fit_constant_column_witness:
  "check_array [[1, 2], [1, 4]] \<and> (0::nat) < n_features [[1, 2], [1, 4]]
   \<and> list_all (\<lambda>row. row ! 0 = 1) [[1, 2], [1, 4 :: real]]
   \<and> (case fit_transform [[1, 2], [1, 4]] of
           Inl e \<Rightarrow> False
         | Inr (sc, Xs) \<Rightarrow>
             mean_stats sc ! 0 = 1 \<and> scale_stats sc ! 0 = 1 \<and> list_all (\<lambda>row. row ! 0 = 0) Xs)"
proof -
  have a: "check_array [[1, 2], [1, 4]]"
    by (simp add: check_array_def n_features_def)
  have b: "(0::nat) < n_features [[1, 2], [1, 4]]"
    by (simp add: n_features_def)
  have c: "list_all (\<lambda>row. row ! 0 = 1) [[1, 2], [1, 4 :: real]]"
    by simp
  from fit_constant_column [OF a b c] a b c show ?thesis
    by blast
qed

text \<open>
  C2 (as stated) fails: the first column of this matrix has zero variance, and the fit
  returns a scaler, with scale 1 for that column, instead of failing.
\<close>

theorem fit_constant_column_counterexample:
  "var (column [[1, 2], [1, 4]] 0) = 0
   \<and> fit [[1, 2], [1, 4]] = Inr \<lparr>mean_stats = [1, 3], scale_stats = [1, 1]\<rparr>
   \<and> fit [[1, 2], [1, 4]] \<noteq> Inl DegenerateFeatureError"
  by (simp add: fit_def check_array_def n_features_def columns_def column_def
      var_def mean_def handle_zeros_in_scale_def upt_rec power2_eq_square)


section \<open>Properties of the network\<close>

lemma length_dense_call: "length (dense_call l x) = units l"
  by (simp add: dense_call_def)

lemma forward_Cons: "forward (l # ls) x = forward ls (dense_call l x)"
  by (simp add: forward_def)

lemma forward_Nil: "forward [] x = x"
  by (simp add: forward_def)


lemma built_forward_nonempty:
  "built n m \<Longrightarrow> m \<noteq> [] \<Longrightarrow> forward m x \<noteq> []"
proof (induction m arbitrary: n x)
  case Nil
  then show ?case by simp
next
  case (Cons l ls)
  show ?case
  proof (cases ls)
    case Nil
    with Cons.prems show ?thesis
      by (simp add: forward_Cons forward_Nil) (metis length_dense_call length_0_conv less_numeral_extra(3))
  next
    case (Cons a as)
    with Cons.IH [of "units l" "dense_call l x"] Cons.prems show ?thesis
      by (simp add: forward_Cons)
  qed
qed




section \<open>Properties of the prediction handler\<close>

lemma sequence_map_value:
  "list_all (\<lambda>k. f k = Inr (g k)) ks \<Longrightarrow> sequence (map f ks) = Inr (map g ks)"
  by (induction ks) simp_all

lemma py_float_default: "py_float fs (JInt 0) = Inr (Finite 0)"
  by (simp add: py_float_def FLOAT_OVERFLOW_def)

lemma py_float_small_int:
  "\<bar>i\<bar> < 2 ^ 64 \<Longrightarrow> py_float fs (JInt i) = Inr (Finite (of_int i))"
proof -
  have "(2::int) ^ 64 \<le> FLOAT_OVERFLOW"
    by (simp add: FLOAT_OVERFLOW_def)
  then show "\<bar>i\<bar> < 2 ^ 64 \<Longrightarrow> py_float fs (JInt i) = Inr (Finite (of_int i))"
    by (simp add: py_float_def)
qed

lemma features_of_request:
  assumes "fields_convert fs d"
  shows "sequence (map (\<lambda>k. py_float fs (dict_get d k)) REQUEST_KEYS)
       = Inr (map Finite (request_features fs d))"
proof -
  have "py_float fs (dict_get d k)
      = Inr (Finite (case d k of None \<Rightarrow> 0
           | Some v \<Rightarrow> (case py_float fs v of Inr f \<Rightarrow> finite_part f | Inl e \<Rightarrow> 0)))"
    if "k \<in> set REQUEST_KEYS" for k
  proof (cases "d k")
    case None
    then show ?thesis by (simp add: dict_get_def py_float_default)
  next
    case (Some v)
    with assms that have "gives_number fs v"
      by (auto simp: fields_convert_def list_all_iff)
    then obtain r where "py_float fs v = Inr (Finite r)"
      by (auto simp: gives_number_def split: sum.splits pyfloat.splits)
    with Some show ?thesis by (simp add: dict_get_def finite_part_def)
  qed
  then have "list_all (\<lambda>k. py_float fs (dict_get d k)
      = Inr (Finite (case d k of None \<Rightarrow> 0
           | Some v \<Rightarrow> (case py_float fs v of Inr f \<Rightarrow> finite_part f | Inl e \<Rightarrow> 0)))) REQUEST_KEYS"
    by (simp add: list_all_iff)
  then have "sequence (map (\<lambda>k. py_float fs (dict_get d k)) REQUEST_KEYS)
      = Inr (map (\<lambda>k. Finite (case d k of None \<Rightarrow> 0
           | Some v \<Rightarrow> (case py_float fs v of Inr f \<Rightarrow> finite_part f | Inl e \<Rightarrow> 0))) REQUEST_KEYS)"
    by (rule sequence_map_value)
  then show ?thesis
    by (simp add: request_features_def comp_def)
qed

lemma finite_features:
  "Infinity \<notin> set (map Finite rs)" "NaN \<notin> set (map Finite rs)"
  "map finite_part (map Finite rs) = rs"
  by (auto simp: finite_part_def comp_def)

lemma length_request_features: "length (request_features fs d) = length FEATURES"
  by (simp add: request_features_def REQUEST_KEYS_def FEATURES_def)

lemma length_standardize_row: "length (standardize_row sc row) = length row"
  by (simp add: standardize_row_def)

lemma transform_one_row:
  assumes "length (mean_stats sc) = length row" and "row \<noteq> []"
  shows "transform sc [row] = Inr [standardize_row sc row]"
  using assms by (simp add: transform_def check_array_def n_features_def)

lemma model_predict_one_row:
  assumes "built (length x) m" and "m \<noteq> []"
  shows "model_predict m [x] = Inr [forward m x]"
  using assms by (cases m) (simp_all add: model_predict_def model_call_def)

lemma predict_try_ok:
  assumes "artifact_shape sc m" and "fields_convert fs d"
  shows "predict_try fs sc m (JsonDict d)
       = Inr (Finite (py_round2 (hd (forward m (standardize_row sc (request_features fs d))))))"
proof -
  let ?f = "request_features fs d"
  let ?x = "standardize_row sc ?f"
  have f: "sequence (map (\<lambda>k. py_float fs (dict_get d k)) REQUEST_KEYS) = Inr (map Finite ?f)"
    using assms(2) by (rule features_of_request)
  have len: "length ?f = length FEATURES"
    by (rule length_request_features)
  have "?f \<noteq> []"
    using len by (auto simp: FEATURES_def)
  with assms(1) len have t: "transform sc [?f] = Inr [?x]"
    by (simp add: transform_one_row artifact_shape_def)
  have b: "built (length ?x) m" and ne: "m \<noteq> []"
    using assms(1) len by (simp_all add: artifact_shape_def length_standardize_row)
  have p: "model_predict m [?x] = Inr [forward m ?x]"
    using b ne by (rule model_predict_one_row)
  have "forward m ?x \<noteq> []"
    using b ne by (rule built_forward_nonempty)
  then obtain v vs where v: "forward m ?x = v # vs"
    by (cases "forward m ?x") auto
  show ?thesis
    by (simp add: predict_try_def f finite_features t p v del: set_map map_map)
qed

lemma predict_loaded:
  "predict fs \<lparr>scaler = Some sc, pinn_model = Some m\<rparr> rq =
     (case predict_try fs sc m rq of
        Inr fwi_value \<Rightarrow> (Fwi_prediction fwi_value, 200)
      | Inl e \<Rightarrow> (Prediction_error e, 400))"
  by (simp add: predict_def)

lemma dict_get_with_defaults:
  "k \<in> set REQUEST_KEYS \<Longrightarrow> dict_get (with_defaults d) k = dict_get d k"
  by (simp add: dict_get_def with_defaults_def split: option.splits)

lemma predict_try_with_defaults:
  "predict_try fs sc m (JsonDict (with_defaults d)) = predict_try fs sc m (JsonDict d)"
proof -
  have "map (\<lambda>k. py_float fs (dict_get (with_defaults d) k)) REQUEST_KEYS
      = map (\<lambda>k. py_float fs (dict_get d k)) REQUEST_KEYS"
    by (intro map_cong) (simp_all add: dict_get_with_defaults)
  then show ?thesis unfolding predict_try_def by (simp only: request_json.case Let_def)
qed

lemma predict_with_defaults:
  "predict fs g (JsonDict (with_defaults d)) = predict fs g (JsonDict d)"
  by (simp add: predict_def predict_try_with_defaults split: option.splits)



lemma hd_dense_call:
  "0 < units l \<Longrightarrow> hd (dense_call l h)
     = activate (activation l) (dot h (column (kernel l) 0) + bias l ! 0)"
  by (simp add: dense_call_def hd_map upt_conv_Cons)

section \<open>Properties of the split and scale section\<close>

lemma transform_Inr:
  "transform sc X = Inr Xs \<Longrightarrow> Xs = map (standardize_row sc) X"
  by (simp add: transform_def split: if_splits)

lemma fit_transform_Inr:
  "fit_transform X = Inr (sc, Xs) \<Longrightarrow> fit X = Inr sc \<and> Xs = map (standardize_row sc) X"
  by (auto simp: fit_transform_def dest: transform_Inr split: sum.splits)

lemma split_and_scale_Inr:
  assumes "train_test_split X y = (X_train, X_test, y_tr, y_te)"
    and "split_and_scale train_test_split X y = Inr p"
  shows "fit X_train = Inr (fitted_scaler p)"
    and "X_train_scaled p = map (standardize_row (fitted_scaler p)) X_train"
    and "X_test_scaled p = map (standardize_row (fitted_scaler p)) X_test"
    and "y_train p = y_tr" and "y_test p = y_te"
  using assms
  by (auto simp: split_and_scale_def dest!: fit_transform_Inr transform_Inr split: sum.splits)

lemma predict_saved_scaler:
  assumes "artifact_shape sc m" and "fields_convert float_str data"
  shows "predict float_str (load_models (Inr sc) (Inr m)) (JsonDict data)
       = (Fwi_prediction
            (Finite (py_round2
               (hd (forward m (standardize_row sc (request_features float_str data)))))),
          200)"
  by (simp add: load_models_def predict_loaded predict_try_ok [OF assms])

text \<open>
  C5. When the split and scale section succeeds, the scaler is the fit of the training
  split alone, so that any run with the same training split has the same statistics
  whatever its test split; the scaled training and test splits are both the
  row-by-row standardization with these statistics; the scaler that the script saves
  is this one; and the prediction handler, started with the saved scaler, standardizes
  the features of every request whose fields are absent or give a number with the
  same statistics before it calls the model.
\<close>

theorem scaler_fitted_on_training_split:
  assumes "train_test_split X y = (X_train, X_test, y_tr, y_te)"
    and "split_and_scale train_test_split X y = Inr p"
  shows "fit X_train = Inr (fitted_scaler p)
       \<and> X_train_scaled p = map (standardize_row (fitted_scaler p)) X_train
       \<and> X_test_scaled p = map (standardize_row (fitted_scaler p)) X_test
       \<and> (\<forall>other_split X' y' X_test' y_tr' y_te' p'.
             other_split X' y' = (X_train, X_test', y_tr', y_te')
             \<longrightarrow> split_and_scale other_split X' y' = Inr p'
             \<longrightarrow> fitted_scaler p' = fitted_scaler p)
       \<and> (\<forall>fw shuffle optimizer initializer.
             map_sum id fst (training_script train_test_split fw shuffle optimizer initializer X y
                :: py_exception + StandardScaler \<times> Sequential)
             = Inr (fitted_scaler p))
       \<and> (\<forall>float_str m data.
             artifact_shape (fitted_scaler p) m \<longrightarrow> fields_convert float_str data
             \<longrightarrow> predict float_str (load_models (Inr (fitted_scaler p)) (Inr m)) (JsonDict data)
                 = (Fwi_prediction
                      (Finite (py_round2 (hd (forward m
                         (standardize_row (fitted_scaler p) (request_features float_str data)))))),
                    200))"
proof (intro conjI allI impI)
  show f: "fit X_train = Inr (fitted_scaler p)"
    using assms by (rule split_and_scale_Inr)
  show "X_train_scaled p = map (standardize_row (fitted_scaler p)) X_train"
    using assms by (rule split_and_scale_Inr)
  show "X_test_scaled p = map (standardize_row (fitted_scaler p)) X_test"
    using assms by (rule split_and_scale_Inr)
  show "fitted_scaler p' = fitted_scaler p"
    if "other_split X' y' = (X_train, X_test', y_tr', y_te')"
      and "split_and_scale other_split X' y' = Inr p'"
    for other_split X' y' X_test' y_tr' y_te' p'
  proof -
    have "fit X_train = Inr (fitted_scaler p')"
      using that by (rule split_and_scale_Inr)
    with f show ?thesis by simp
  qed
  show "map_sum id fst (training_script train_test_split fw shuffle optimizer initializer X y
                :: py_exception + StandardScaler \<times> Sequential)
             = Inr (fitted_scaler p)"
    for fw :: "('g, 'o) framework" and shuffle optimizer initializer
    using assms(2) by (simp add: training_script_def)
  show "predict float_str (load_models (Inr (fitted_scaler p)) (Inr m)) (JsonDict data)
        = (Fwi_prediction
             (Finite (py_round2 (hd (forward m
                (standardize_row (fitted_scaler p) (request_features float_str data)))))),
           200)"
    if "artifact_shape (fitted_scaler p) m" and "fields_convert float_str data"
    for float_str m data
    using that by (rule predict_saved_scaler)
qed

lemma example_split:
  "split_and_scale (\<lambda>X y. (take 2 X, drop 2 X, take 2 y, drop 2 y))
     [[19, 39, 9, 0, 84, 9, 49, 4], [21, 41, 11, 2, 86, 11, 51, 6], [25, 40, 10, 0, 85, 6, 15, 2]]
     [[10], [20], [30]]
   = Inr \<lparr>fitted_scaler = \<lparr>mean_stats = [20, 40, 10, 1, 85, 10, 50, 5],
                             scale_stats = [1, 1, 1, 1, 1, 1, 1, 1]\<rparr>,
          X_train_scaled = [[- 1, - 1, - 1, - 1, - 1, - 1, - 1, - 1], [1, 1, 1, 1, 1, 1, 1, 1]],
          X_test_scaled = [[5, 0, 0, - 1, 0, - 4, - 35, - 3]],
          y_train = [[10], [20]], y_test = [[30]]\<rparr>"
  by (simp add: split_and_scale_def fit_transform_def fit_def transform_def check_array_def
      n_features_def columns_def column_def var_def mean_def handle_zeros_in_scale_def
      standardize_row_def upt_rec power2_eq_square)

lemma example_saved_shape:
  "artifact_shape \<lparr>mean_stats = [20, 40, 10, 1, 85, 10, 50, 5],
                   scale_stats = [1, 1, 1, 1, 1, 1, 1, 1]\<rparr>
     [\<lparr>kernel = replicate 8 [1], bias = [3], activation = Linear\<rparr>]"
  by (simp add: artifact_shape_def FEATURES_def units_def list_all_iff)

lemma example_request:
  "fields_convert (\<lambda>s. None) [''temperature'' \<mapsto> JInt 25, ''ffmc'' \<mapsto> JInt 85]"
  "request_features (\<lambda>s. None) [''temperature'' \<mapsto> JInt 25, ''ffmc'' \<mapsto> JInt 85]
     = [25, 0, 0, 0, 85, 0, 0, 0]"
  by (simp_all add: fields_convert_def gives_number_def request_features_def REQUEST_KEYS_def
      py_float_small_int finite_part_def)

lemma example_saved_output:
  "py_round2 (hd (forward [\<lparr>kernel = replicate 8 [1], bias = [3], activation = Linear\<rparr>]
     (standardize_row \<lparr>mean_stats = [20, 40, 10, 1, 85, 10, 50, 5],
                       scale_stats = [1, 1, 1, 1, 1, 1, 1, 1]\<rparr>
        [25, 0, 0, 0, 85, 0, 0, 0]))) = - 108"
  by (simp add: forward_def dense_call_def units_def dot_def column_def standardize_row_def
      upt_rec py_round2_def Let_def)

theorem scaler_fitted_on_training_split_witness:
  "split_and_scale (\<lambda>X y. (take 2 X, drop 2 X, take 2 y, drop 2 y))
     [[19, 39, 9, 0, 84, 9, 49, 4], [21, 41, 11, 2, 86, 11, 51, 6], [25, 40, 10, 0, 85, 6, 15, 2]]
     [[10], [20], [30]]
   = Inr \<lparr>fitted_scaler = \<lparr>mean_stats = [20, 40, 10, 1, 85, 10, 50, 5],
                             scale_stats = [1, 1, 1, 1, 1, 1, 1, 1]\<rparr>,
          X_train_scaled = [[- 1, - 1, - 1, - 1, - 1, - 1, - 1, - 1], [1, 1, 1, 1, 1, 1, 1, 1]],
          X_test_scaled = [[5, 0, 0, - 1, 0, - 4, - 35, - 3]],
          y_train = [[10], [20]], y_test = [[30]]\<rparr>
   \<and> fit [[19, 39, 9, 0, 84, 9, 49, 4], [21, 41, 11, 2, 86, 11, 51, 6]]
       = Inr \<lparr>mean_stats = [20, 40, 10, 1, 85, 10, 50, 5], scale_stats = [1, 1, 1, 1, 1, 1, 1, 1]\<rparr>
   \<and> map (standardize_row \<lparr>mean_stats = [20, 40, 10, 1, 85, 10, 50, 5],
                              scale_stats = [1, 1, 1, 1, 1, 1, 1, 1]\<rparr>)
         [[25, 40, 10, 0, 85, 6, 15, 2]] = [[5, 0, 0, - 1, 0, - 4, - 35, - 3]]
   \<and> artifact_shape \<lparr>mean_stats = [20, 40, 10, 1, 85, 10, 50, 5],
                       scale_stats = [1, 1, 1, 1, 1, 1, 1, 1]\<rparr>
         [\<lparr>kernel = replicate 8 [1], bias = [3], activation = Linear\<rparr>]
   \<and> fields_convert (\<lambda>s. None) [''temperature'' \<mapsto> JInt 25, ''ffmc'' \<mapsto> JInt 85]
   \<and> predict (\<lambda>s. None)
         (load_models
            (Inr \<lparr>mean_stats = [20, 40, 10, 1, 85, 10, 50, 5],
                   scale_stats = [1, 1, 1, 1, 1, 1, 1, 1]\<rparr>)
            (Inr [\<lparr>kernel = replicate 8 [1], bias = [3], activation = Linear\<rparr>]))
         (JsonDict [''temperature'' \<mapsto> JInt 25, ''ffmc'' \<mapsto> JInt 85])
       = (Fwi_prediction (Finite (- 108)), 200)"
proof -
  let ?tts = "\<lambda>(X::matrix) (y::matrix). (take 2 X, drop 2 X, take 2 y, drop 2 y)"
  let ?X = "[[19, 39, 9, 0, 84, 9, 49, 4], [21, 41, 11, 2, 86, 11, 51, 6],
             [25, 40, 10, 0, 85, 6, 15, 2]] :: matrix"
  let ?sc = "\<lparr>mean_stats = [20, 40, 10, 1, 85, 10, 50, 5], scale_stats = [1, 1, 1, 1, 1, 1, 1, 1]\<rparr>"
  have s: "?tts ?X [[10], [20], [30]]
      = ([[19, 39, 9, 0, 84, 9, 49, 4], [21, 41, 11, 2, 86, 11, 51, 6]],
         [[25, 40, 10, 0, 85, 6, 15, 2]], [[10], [20]], [[30]])"
    by simp
  note t = scaler_fitted_on_training_split [OF s example_split]
  have a: "fit [[19, 39, 9, 0, 84, 9, 49, 4], [21, 41, 11, 2, 86, 11, 51, 6]] = Inr ?sc"
    using conjunct1 [OF t] by simp
  have b: "map (standardize_row ?sc) [[25, 40, 10, 0, 85, 6, 15, 2]]
      = [[5, 0, 0, - 1, 0, - 4, - 35, - 3]]"
    using conjunct1 [OF conjunct2 [OF conjunct2 [OF t]], symmetric] by simp
  note inference = conjunct2 [OF conjunct2 [OF conjunct2 [OF conjunct2 [OF conjunct2 [OF t]]]]]
  have c: "predict (\<lambda>s. None)
         (load_models (Inr ?sc) (Inr [\<lparr>kernel = replicate 8 [1], bias = [3], activation = Linear\<rparr>]))
         (JsonDict [''temperature'' \<mapsto> JInt 25, ''ffmc'' \<mapsto> JInt 85])
       = (Fwi_prediction (Finite (- 108)), 200)"
    using inference [rule_format, of "[\<lparr>kernel = replicate 8 [1], bias = [3], activation = Linear\<rparr>]"
        "\<lambda>s. None" "[''temperature'' \<mapsto> JInt 25, ''ffmc'' \<mapsto> JInt 85]"]
      example_saved_shape example_request(1)
    by (simp add: example_request(2) example_saved_output)
  from example_split a b example_saved_shape example_request(1) c show ?thesis
    by (intro conjI)
qed

section \<open>The prediction handler: the claims\<close>

text \<open>
  C10. When the scaler or the model fails to load at start, whatever the exception,
  the start-up still yields the application's state, with both variables \<open>None\<close>, and
  the prediction handler answers every request with the same 503 response, whatever
  the request holds: no feature is read and no model is called. The route gives that
  response to every logged-in caller.
\<close>

theorem predict_503_when_not_loaded:
  assumes "isl scaler_load \<or> isl model_load"
  shows "load_models scaler_load model_load = \<lparr>scaler = None, pinn_model = None\<rparr>
       \<and> predict float_str (load_models scaler_load model_load) request_json
           = (Error_message ''Prediction models are not available on the server.'', 503)
       \<and> api_predict float_str (load_models scaler_load model_load) True request_json
           = (Error_message ''Prediction models are not available on the server.'', 503)"
  using assms
  by (cases scaler_load; cases model_load)
    (simp_all add: load_models_def predict_def api_predict_def)

theorem predict_503_when_not_loaded_witness:
  "isl (Inl FileNotFoundError :: py_exception + StandardScaler)
   \<and> predict (\<lambda>s. None) (load_models (Inl FileNotFoundError) (Inl FileNotFoundError))
         (JsonDict [''temperature'' \<mapsto> JInt 25])
       = (Error_message ''Prediction models are not available on the server.'', 503)"
proof -
  have h: "isl (Inl FileNotFoundError :: py_exception + StandardScaler)"
    by simp
  from predict_503_when_not_loaded [OF disjI1 [OF h]] h show ?thesis
    by blast
qed

text \<open>
  C9. With the artifacts loaded, a request each of whose fields is absent or gives a
  number is answered with status 200 and a prediction; the feature of every absent
  field is 0; and the response to any request is the one to the same request with
  each absent field set to 0.
\<close>

theorem absent_fields_default_to_zero:
  assumes "scaler g = Some sc" and "pinn_model g = Some m" and "artifact_shape sc m"
    and "fields_convert float_str data"
  shows "predict float_str g (JsonDict data)
           = (Fwi_prediction
                (Finite (py_round2
                   (hd (forward m (standardize_row sc (request_features float_str data)))))),
              200)
       \<and> (\<forall>i<length REQUEST_KEYS.
             data (REQUEST_KEYS ! i) = None \<longrightarrow> request_features float_str data ! i = 0)
       \<and> predict float_str g (JsonDict data) = predict float_str g (JsonDict (with_defaults data))"
proof (intro conjI)
  have g: "g = \<lparr>scaler = Some sc, pinn_model = Some m\<rparr>"
    using assms(1,2) by (cases g) simp
  show "predict float_str g (JsonDict data)
           = (Fwi_prediction
                (Finite (py_round2
                   (hd (forward m (standardize_row sc (request_features float_str data)))))),
              200)"
    unfolding g by (simp add: predict_loaded predict_try_ok [OF assms(3,4)])
  show "\<forall>i<length REQUEST_KEYS.
             data (REQUEST_KEYS ! i) = None \<longrightarrow> request_features float_str data ! i = 0"
    by (simp add: request_features_def)
  show "predict float_str g (JsonDict data) = predict float_str g (JsonDict (with_defaults data))"
    by (simp add: predict_with_defaults)
qed



lemma api_predict_unauthenticated:
  "api_predict float_str g False request_json = (Unauthorized, 401)"
  by (simp add: api_predict_def)

lemma example_artifact_shape:
  "artifact_shape \<lparr>mean_stats = [20, 50, 10, 1, 80, 10, 50, 5],
                       scale_stats = [5, 10, 2, 1, 10, 5, 25, 5]\<rparr>
         [\<lparr>kernel = replicate 8 [1], bias = [3], activation = Linear\<rparr>]"
  by (simp add: artifact_shape_def FEATURES_def units_def list_all_iff)

lemma example_fields:
  "fields_convert (\<lambda>s. None) [''temperature'' \<mapsto> JInt 25, ''ffmc'' \<mapsto> JInt 85]"
  "request_features (\<lambda>s. None) [''temperature'' \<mapsto> JInt 25, ''ffmc'' \<mapsto> JInt 85]
     = [25, 0, 0, 0, 85, 0, 0, 0]"
  by (simp_all add: fields_convert_def gives_number_def request_features_def REQUEST_KEYS_def
      py_float_small_int finite_part_def)

lemma example_output:
  "dot (standardize_row \<lparr>mean_stats = [20, 50, 10, 1, 80, 10, 50, 5],
                       scale_stats = [5, 10, 2, 1, 10, 5, 25, 5]\<rparr>
               [25, 0, 0, 0, 85, 0, 0, 0]) (column (replicate 8 [1]) 0) + [3] ! 0 = - 23 / 2"
  by (simp add: dot_def column_def standardize_row_def upt_rec)

lemma example_round: "py_round2 (- 23 / 2) = - 23 / 2"
  by (simp add: py_round2_def Let_def)

theorem absent_fields_default_to_zero_witness:
  "artifact_shape \<lparr>mean_stats = [20, 50, 10, 1, 80, 10, 50, 5],
                       scale_stats = [5, 10, 2, 1, 10, 5, 25, 5]\<rparr>
         [\<lparr>kernel = replicate 8 [1], bias = [3], activation = Linear\<rparr>]
   \<and> fields_convert (\<lambda>s. None) [''temperature'' \<mapsto> JInt 25, ''ffmc'' \<mapsto> JInt 85]
   \<and> request_features (\<lambda>s. None) [''temperature'' \<mapsto> JInt 25, ''ffmc'' \<mapsto> JInt 85]
       = [25, 0, 0, 0, 85, 0, 0, 0]
   \<and> predict (\<lambda>s. None)
         \<lparr>scaler = Some \<lparr>mean_stats = [20, 50, 10, 1, 80, 10, 50, 5],
                                scale_stats = [5, 10, 2, 1, 10, 5, 25, 5]\<rparr>,
          pinn_model = Some [\<lparr>kernel = replicate 8 [1], bias = [3], activation = Linear\<rparr>]\<rparr>
         (JsonDict [''temperature'' \<mapsto> JInt 25, ''ffmc'' \<mapsto> JInt 85])
       = (Fwi_prediction (Finite (- 23 / 2)), 200)"
proof -
  let ?sc = "\<lparr>mean_stats = [20, 50, 10, 1, 80, 10, 50, 5], scale_stats = [5, 10, 2, 1, 10, 5, 25, 5]\<rparr>"
  let ?l = "\<lparr>kernel = replicate 8 [1], bias = [3], activation = Linear\<rparr>"
  let ?d = "[''temperature'' \<mapsto> JInt 25, ''ffmc'' \<mapsto> JInt 85]"
  let ?g = "\<lparr>scaler = Some ?sc, pinn_model = Some [?l]\<rparr>"
  have a: "scaler ?g = Some ?sc" and b: "pinn_model ?g = Some [?l]"
    by simp_all
  have v: "hd (forward [?l] (standardize_row ?sc [25, 0, 0, 0, 85, 0, 0, 0])) = - 23 / 2"
    using example_output by (simp add: forward_Cons forward_Nil hd_dense_call units_def)
  from absent_fields_default_to_zero [OF a b example_artifact_shape example_fields(1)]
  have "predict (\<lambda>s. None) ?g (JsonDict ?d) = (Fwi_prediction (Finite (- 23 / 2)), 200)"
    by (simp only: example_fields(2) v example_round)
  with example_artifact_shape example_fields show ?thesis
    by blast
qed




subsection \<open>Requests whose fields do not give a number\<close>

text \<open>
  An integer beyond the range of a double makes \<open>float\<close> raise \<open>OverflowError\<close>, an
  infinite float is refused by the scaler, and both are answered with status 400,
  whatever the artifact; a not-a-number goes through and comes back as the prediction.
\<close>

lemma py_float_overflow: "py_float fs (JInt (10 ^ 400)) = Inl OverflowError"
  by (simp add: py_float_def FLOAT_OVERFLOW_def)

lemma predict_overflow_400:
  "predict fs \<lparr>scaler = Some sc, pinn_model = Some m\<rparr> (JsonDict [''temperature'' \<mapsto> JInt (10 ^ 400)])
     = (Prediction_error OverflowError, 400)"
  by (simp add: predict_loaded predict_try_def REQUEST_KEYS_def dict_get_def py_float_def
      FLOAT_OVERFLOW_def)

lemma predict_infinity_400:
  "predict fs \<lparr>scaler = Some sc, pinn_model = Some m\<rparr> (JsonDict [''temperature'' \<mapsto> JFloat Infinity])
     = (Prediction_error ValueError, 400)"
  by (simp add: predict_loaded predict_try_def REQUEST_KEYS_def dict_get_def py_float_def
      FLOAT_OVERFLOW_def)

lemma predict_nan_200:
  "predict fs
     \<lparr>scaler = Some \<lparr>mean_stats = [20, 50, 10, 1, 80, 10, 50, 5],
                     scale_stats = [5, 10, 2, 1, 10, 5, 25, 5]\<rparr>,
      pinn_model = Some [\<lparr>kernel = replicate 8 [1], bias = [3], activation = Linear\<rparr>]\<rparr>
     (JsonDict [''temperature'' \<mapsto> JFloat NaN])
     = (Fwi_prediction NaN, 200)"
  by (simp add: predict_loaded predict_try_def REQUEST_KEYS_def dict_get_def py_float_def
      FLOAT_OVERFLOW_def finite_part_def transform_def check_array_def n_features_def
      model_predict_def model_call_def forward_def dense_call_def units_def
      length_standardize_row)

section \<open>Properties of the training\<close>

lemma run_batches_eq:
  "run_batches step st bs = (losses_along step st bs, foldl (\<lambda>s b. snd (step s b)) st bs)"
  by (induction bs arbitrary: st) (simp_all split: prod.splits)

lemma losses_along_append:
  "losses_along step st (bs @ cs)
     = losses_along step st bs @ losses_along step (foldl (\<lambda>s b. snd (step s b)) st bs) cs"
  by (induction bs arbitrary: st) simp_all

lemma length_losses_along: "length (losses_along step st bs) = length bs"
  by (induction bs arbitrary: st) simp_all

lemma run_epochs_state:
  "snd (run_epochs step ds st es) = foldl (\<lambda>s b. snd (step s b)) st (concat (map ds es))"
  by (induction es arbitrary: st) (simp_all add: run_batches_eq split_beta)

lemma run_epochs_losses:
  "concat (fst (run_epochs step ds st es)) = losses_along step st (concat (map ds es))"
  by (induction es arbitrary: st)
    (simp_all add: run_batches_eq losses_along_append run_epochs_state split_beta)

lemma run_epochs_shape:
  "map length (fst (run_epochs step ds st es)) = map (\<lambda>e. length (ds e)) es"
  by (induction es arbitrary: st)
    (simp_all add: run_batches_eq length_losses_along split_beta)

lemma losses_along_all:
  "(\<And>s b. P (fst (step s b))) \<Longrightarrow> list_all P (losses_along step st bs)"
  by (induction bs arbitrary: st) simp_all

text \<open>
  C6 (as amended). The training loop has no test on the values that a step produces:
  for every step function, finite results or not, the final state is the one reached
  by running the step on every batch of every epoch in order, the losses recorded are
  those of all these steps, and every epoch runs all the batches of its dataset.
\<close>

theorem training_loop_runs_every_batch:
  "snd (training_loop step ds st) = foldl (\<lambda>s b. snd (step s b)) st (all_batches ds)
   \<and> concat (fst (training_loop step ds st)) = losses_along step st (all_batches ds)
   \<and> map length (fst (training_loop step ds st)) = map (\<lambda>epoch. length (ds epoch)) [0..<N_EPOCHS]"
  by (simp add: training_loop_def all_batches_def run_epochs_state run_epochs_losses run_epochs_shape)

lemma run_epochs_const:
  "run_epochs (\<lambda>p b. (p, None)) (\<lambda>epoch. [b]) None es = (map (\<lambda>e. [None]) es, None)"
  by (induction es) simp_all

text \<open>
  C6 (as stated) fails. Take losses and parameters that are a number or \<open>None\<close>, for
  a non-finite value, and a step that reports the current parameters as the loss and
  leaves them non-finite. The first step reports a finite loss and corrupts the
  parameters, the second reports a non-finite loss, and the loop still runs its
  hundred epochs and ends normally with the corrupted parameters.
\<close>

theorem training_continues_counterexample:
  "training_loop (\<lambda>p b. (p, None)) (\<lambda>epoch. [()]) (Some (1::real))
     = ([Some 1] # replicate 99 [None], None)"
proof -
  have "[0..<N_EPOCHS] = 0 # [1..<100]"
    by (simp add: N_EPOCHS_def upt_conv_Cons)
  moreover have "map (\<lambda>e. [None :: real option]) [1..<100] = replicate 99 [None]"
    by (simp add: map_replicate_const)
  ultimately show ?thesis
    by (simp add: training_loop_def run_epochs_const)
qed

lemma taped_total:
  "taped_losses fw x y m =
     (mse_loss_fn y (model_call m x), physics_loss_fn (input_gradient fw) m x,
      mse_loss_fn y (model_call m x) + 1 / 10 * physics_loss_fn (input_gradient fw) m x)"
  by (simp add: taped_losses_def PHYSICS_LOSS_WEIGHT_def Let_def)

lemma train_step_eq:
  "train_step fw st b = (taped_losses fw (fst b) (snd b) (snd st),
      apply_gradients fw (step_gradients fw st b) st)"
  by (simp add: train_step_def Let_def split: prod.splits)

text \<open>
  C3. The weight is the constant 0.1. In every training step the gradients handed to
  the optimizer are the gradients, with respect to the model's variables, of the
  mean-squared-error data loss plus 0.1 times the physics penalty, on that batch; and
  in every step of every epoch of the training, the total loss reported is the data
  loss plus 0.1 times the physics loss.
\<close>

theorem total_loss_is_weighted_sum:
  "PHYSICS_LOSS_WEIGHT = 1 / 10
   \<and> train_step fw (opt, m) (x, y) =
       ((mse_loss_fn y (model_call m x), physics_loss_fn (input_gradient fw) m x,
         mse_loss_fn y (model_call m x) + 1 / 10 * physics_loss_fn (input_gradient fw) m x),
        apply_gradients fw
          (variable_gradient fw
             (\<lambda>v. mse_loss_fn y (model_call v x) + 1 / 10 * physics_loss_fn (input_gradient fw) v x) m)
          (opt, m))
   \<and> list_all (list_all (\<lambda>(data_loss, physics_loss, total_loss).
         total_loss = data_loss + 1 / 10 * physics_loss))
       (fst (train fw shuffle opt initializer p))"
proof (intro conjI)
  show "PHYSICS_LOSS_WEIGHT = 1 / 10"
    by (simp add: PHYSICS_LOSS_WEIGHT_def)
  show "train_step fw (opt, m) (x, y) =
       ((mse_loss_fn y (model_call m x), physics_loss_fn (input_gradient fw) m x,
         mse_loss_fn y (model_call m x) + 1 / 10 * physics_loss_fn (input_gradient fw) m x),
        apply_gradients fw
          (variable_gradient fw
             (\<lambda>v. mse_loss_fn y (model_call v x) + 1 / 10 * physics_loss_fn (input_gradient fw) v x) m)
          (opt, m))"
    by (simp add: train_step_eq step_gradients_def taped_total)
  have step: "(\<lambda>(d, p, t). t = d + 1 / 10 * p) (fst (train_step fw s b))" for s b
    by (simp add: train_step_eq taped_total)
  have "list_all (\<lambda>(d, p, t). t = d + 1 / 10 * p)
      (concat (fst (training_loop (train_step fw) ds st)))" for ds st
    unfolding training_loop_def run_epochs_losses
    using step by (rule losses_along_all)
  then show "list_all (list_all (\<lambda>(data_loss, physics_loss, total_loss).
         total_loss = data_loss + 1 / 10 * physics_loss))
       (fst (train fw shuffle opt initializer p))"
    by (auto simp: train_def list_all_iff)
qed

end
